theory Spec2Isabelle
  imports Complex_Main "HOL-Library.Word"
begin

unbundle bit_operations_syntax

section \<open>Audio conversion: Float32 samples to LINEAR16\<close>

text \<open>
  The relay in \<^verbatim>\<open>src/server.ts\<close> receives a Node.js \<^verbatim>\<open>Buffer\<close>, views it as a
  \<^verbatim>\<open>Float32Array\<close>, and fills an \<^verbatim>\<open>Int16Array\<close> with
  \<^verbatim>\<open>Math.max(-32768, Math.min(32767, float32Array[i] * 32767))\<close>.
  The older variant of the file (kept in the repository without a name) runs the same loop.

  A buffer is a list of bytes. An element of a \<^verbatim>\<open>Float32Array\<close> is the 32-bit pattern
  made of four consecutive bytes in the byte order of the host, which is little-endian on
  every platform Node.js supports.
\<close>

type_synonym byte = "8 word"

text \<open>
  A JavaScript number is an IEEE-754 double. Reading a \<^verbatim>\<open>Float32Array\<close> element widens
  the binary32 value to a double without loss, so the value read is one of: not-a-number,
  an infinity (\<open>Inf True\<close> is \<open>+\<infinity>\<close>), or the rational number the bit pattern denotes.
  Both zeros are \<open>Fin 0\<close>: the sign of zero is lost by the store into the \<^verbatim>\<open>Int16Array\<close>.
\<close>

datatype jsnum = NaN | Inf bool | Fin rat

definition float32_bits :: "byte list \<Rightarrow> nat \<Rightarrow> 32 word" where
  "float32_bits buf i =
     ucast (buf ! (4 * i))
     OR push_bit 8 (ucast (buf ! (4 * i + 1)))
     OR push_bit 16 (ucast (buf ! (4 * i + 2)))
     OR push_bit 24 (ucast (buf ! (4 * i + 3)))"

text \<open>
  \<^verbatim>\<open>new Float32Array(alignedBuffer)\<close>: the view has one element for each four bytes.
  The caller has checked that the byte length is a multiple of 4.
\<close>

definition Float32Array :: "byte list \<Rightarrow> 32 word list" where
  "Float32Array buf = map (float32_bits buf) [0 ..< length buf div 4]"

text \<open>The value of a binary32 bit pattern: sign bit, 8 exponent bits, 23 fraction bits.\<close>

definition f32_sign :: "32 word \<Rightarrow> bool" where
  "f32_sign w = bit w 31"

definition f32_exponent :: "32 word \<Rightarrow> nat" where
  "f32_exponent w = unat (drop_bit 23 w AND 0xFF)"

definition f32_fraction :: "32 word \<Rightarrow> nat" where
  "f32_fraction w = unat (w AND 0x7FFFFF)"

definition f32_magnitude :: "32 word \<Rightarrow> rat" where
  "f32_magnitude w =
     (let e = f32_exponent w; m = f32_fraction w in
      if e = 0 then of_nat m / 2 ^ 149
      else if 150 \<le> e then of_nat (2 ^ 23 + m) * 2 ^ (e - 150)
      else of_nat (2 ^ 23 + m) / 2 ^ (150 - e))"

definition f32_value :: "32 word \<Rightarrow> jsnum" where
  "f32_value w =
     (if f32_exponent w = 255
      then (if f32_fraction w = 0 then Inf (\<not> f32_sign w) else NaN)
      else Fin (if f32_sign w then - f32_magnitude w else f32_magnitude w))"

text \<open>
  \<^verbatim>\<open>float32Array[i] * 32767\<close> is a double multiplication. A finite binary32 value is
  \<open>\<plusminus> M \<times> 2\<^sup>E\<close> with \<open>M < 2\<^sup>2\<^sup>4\<close> and \<open>-149 \<le> E \<le> 104\<close>; its product with \<open>32767 < 2\<^sup>1\<^sup>5\<close> has
  a significand below \<open>2\<^sup>3\<^sup>9\<close> and the same exponent, so a double (53 significand bits,
  exponents down to \<open>-1074\<close>) holds it exactly and the multiplication does not round.
  Lemma \<open>times_32767_exact\<close> below proves the bound this relies on.
\<close>

definition times_32767 :: "jsnum \<Rightarrow> jsnum" where
  "times_32767 x = (case x of NaN \<Rightarrow> NaN | Inf s \<Rightarrow> Inf s | Fin r \<Rightarrow> Fin (r * 32767))"

text \<open>\<^verbatim>\<open>Math.min\<close> and \<^verbatim>\<open>Math.max\<close> with a finite first argument: not-a-number is contagious.\<close>

definition Math_min :: "rat \<Rightarrow> jsnum \<Rightarrow> jsnum" where
  "Math_min c x =
     (case x of NaN \<Rightarrow> NaN
      | Inf s \<Rightarrow> (if s then Fin c else Inf False)
      | Fin r \<Rightarrow> Fin (min c r))"

definition Math_max :: "rat \<Rightarrow> jsnum \<Rightarrow> jsnum" where
  "Math_max c x =
     (case x of NaN \<Rightarrow> NaN
      | Inf s \<Rightarrow> (if s then Inf True else Fin c)
      | Fin r \<Rightarrow> Fin (max c r))"

text \<open>
  Storing a number into an \<^verbatim>\<open>Int16Array\<close> applies the language's \<^verbatim>\<open>ToInt16\<close>:
  not-a-number and the infinities become 0, any other number is truncated towards zero
  and reduced modulo \<open>2\<^sup>1\<^sup>6\<close>.
\<close>

definition js_trunc :: "rat \<Rightarrow> int" where
  "js_trunc r = (if 0 \<le> r then \<lfloor>r\<rfloor> else \<lceil>r\<rceil>)"

definition ToInt16 :: "jsnum \<Rightarrow> 16 word" where
  "ToInt16 x = (case x of NaN \<Rightarrow> 0 | Inf s \<Rightarrow> 0 | Fin r \<Rightarrow> word_of_int (js_trunc r))"

definition convert_sample :: "32 word \<Rightarrow> 16 word" where
  "convert_sample w = ToInt16 (Math_max (-32768) (Math_min 32767 (times_32767 (f32_value w))))"

text \<open>
  The loop \<^verbatim>\<open>for (let i = 0; i < float32Array.length; i++) int16Array[i] = ...\<close>,
  with the loop counter and the array being filled as arguments.
\<close>

function convert_loop :: "nat \<Rightarrow> 32 word list \<Rightarrow> 16 word list \<Rightarrow> 16 word list" where
  "convert_loop i float32Array int16Array =
     (if i < length float32Array
      then convert_loop (Suc i) float32Array (int16Array[i := convert_sample (float32Array ! i)])
      else int16Array)"
  by pat_completeness auto
termination
  by (relation "measure (\<lambda>(i, float32Array, int16Array). length float32Array - i)") auto

declare convert_loop.simps [simp del]

text \<open>\<^verbatim>\<open>new Int16Array(float32Array.length)\<close> is zero-filled; the loop starts at 0.\<close>

definition float32_to_int16 :: "32 word list \<Rightarrow> 16 word list" where
  "float32_to_int16 float32Array =
     convert_loop 0 float32Array (replicate (length float32Array) 0)"

text \<open>
  \<^verbatim>\<open>Buffer.from(int16Array.buffer)\<close>: the bytes of the samples, two per sample, low byte
  first.
\<close>

definition int16_bytes :: "16 word list \<Rightarrow> byte list" where
  "int16_bytes samples = concat (map (\<lambda>s. [ucast s, ucast (drop_bit 8 s)]) samples)"


section \<open>The session: one upstream recognition stream per client connection\<close>

text \<open>
  The connection handler of \<^verbatim>\<open>src/server.ts\<close> closes over one variable,
  \<^verbatim>\<open>let recognizeStream: any = null\<close>, which every callback of the connection reads and
  assigns. The stream objects themselves belong to the speech client library: the model
  keeps them in a store (a list, a stream's index being its identity) and the variable
  holds an index or nothing. A stream carries the two flags the code inspects.
\<close>

record stream =
  destroyed :: bool
  writable :: bool

text \<open>What the session does to its surroundings: calls on a stream, messages to the client.\<close>

datatype upstream_call = Write nat "byte list" | End nat | Destroy nat

text \<open>
  A message to the client is the object handed to \<^verbatim>\<open>JSON.stringify\<close> and then to
  \<^verbatim>\<open>ws.send\<close>: \<^verbatim>\<open>{ error }\<close> or \<^verbatim>\<open>{ transcript, isFinal }\<close>.
\<close>

datatype client_msg = ErrorMsg string | TranscriptMsg string bool

record session =
  recognizeStream :: "nat option"
  streams :: "stream list"
  ws_open :: bool
  timers :: "byte list list"
  upstream_calls :: "upstream_call list"
  client_sent :: "client_msg list"

text \<open>
  \<open>ws_open\<close> is \<^verbatim>\<open>ws.readyState === WebSocket.OPEN\<close>. \<open>timers\<close> are the pending
  \<^verbatim>\<open>setTimeout\<close> callbacks, each with the message it captured; all have the same delay,
  so they fire in the order they were set.
\<close>

definition initial :: session where
  "initial = \<lparr>recognizeStream = None, streams = [], ws_open = True, timers = [],
              upstream_calls = [], client_sent = []\<rparr>"

definition ws_send :: "client_msg \<Rightarrow> session \<Rightarrow> session" where
  "ws_send m s = s\<lparr>client_sent := client_sent s @ [m]\<rparr>"

text \<open>
  The three calls on a stream. Of the library's behaviour the model keeps what Node.js
  documents for a writable stream: \<^verbatim>\<open>end()\<close> clears \<^verbatim>\<open>writable\<close>, \<^verbatim>\<open>destroy()\<close> sets
  \<^verbatim>\<open>destroyed\<close> and clears \<^verbatim>\<open>writable\<close>, \<^verbatim>\<open>write()\<close> changes neither flag. Where the
  source wraps a call in \<^verbatim>\<open>try\<close>, its \<^verbatim>\<open>catch\<close> only logs.
\<close>

definition stream_write :: "nat \<Rightarrow> byte list \<Rightarrow> session \<Rightarrow> session" where
  "stream_write h dataToSend s = s\<lparr>upstream_calls := upstream_calls s @ [Write h dataToSend]\<rparr>"

definition stream_end :: "nat \<Rightarrow> session \<Rightarrow> session" where
  "stream_end h s =
     s\<lparr>streams := (streams s)[h := (streams s ! h)\<lparr>writable := False\<rparr>],
       upstream_calls := upstream_calls s @ [End h]\<rparr>"

definition stream_destroy :: "nat \<Rightarrow> session \<Rightarrow> session" where
  "stream_destroy h s =
     s\<lparr>streams := (streams s)[h := (streams s ! h)\<lparr>destroyed := True, writable := False\<rparr>],
       upstream_calls := upstream_calls s @ [Destroy h]\<rparr>"

text \<open>
  The guard \<^verbatim>\<open>recognizeStream && !recognizeStream.destroyed && recognizeStream.writable\<close>.
\<close>

definition stream_ready :: "session \<Rightarrow> bool" where
  "stream_ready s =
     (case recognizeStream s of
        None \<Rightarrow> False
      | Some h \<Rightarrow> \<not> destroyed (streams s ! h) \<and> writable (streams s ! h))"

subsection \<open>Starting the upstream stream\<close>

text \<open>
  \<^verbatim>\<open>speechClient.streamingRecognize(requestConfig)\<close> either throws or returns a new stream;
  which of the two, and the flags of the new stream, are the library's choice and an input
  of the model.
\<close>

datatype create_result = Throws | Returns stream

definition startGoogleStream :: "create_result \<Rightarrow> session \<Rightarrow> session" where
  "startGoogleStream r s =
     (case r of
        Returns st \<Rightarrow>
          s\<lparr>recognizeStream := Some (length (streams s)), streams := streams s @ [st]\<rparr>
      | Throws \<Rightarrow>
          (let s1 = (if ws_open s
                     then ws_send (ErrorMsg ''Internal failure starting transcription service.'') s
                     else s)
           in s1\<lparr>recognizeStream := None\<rparr>))"

subsection \<open>Callbacks of the upstream stream\<close>

definition stream_on_error :: "string \<Rightarrow> session \<Rightarrow> session" where
  "stream_on_error err_message s =
     (let errorMessage =
            ''Google API Error: '' @ (if err_message = [] then ''Unknown error'' else err_message);
          s1 = (if ws_open s then ws_send (ErrorMsg errorMessage) s else s);
          s2 = (case recognizeStream s1 of
                  Some h \<Rightarrow> stream_destroy h s1
                | None \<Rightarrow> s1)
      in s2\<lparr>recognizeStream := None\<rparr>)"

text \<open>
  The same callback in the older variant of the file: other texts, and the reference is
  cleared inside the test.
\<close>

definition stream_on_error_old :: "string \<Rightarrow> session \<Rightarrow> session" where
  "stream_on_error_old err_message s =
     (let errorMessage =
            ''Erro na API do Google: '' @ (if err_message = [] then ''Erro desconhecido'' else err_message);
          s1 = (if ws_open s then ws_send (ErrorMsg errorMessage) s else s)
      in (case recognizeStream s1 of
            Some h \<Rightarrow> (stream_destroy h s1)\<lparr>recognizeStream := None\<rparr>
          | None \<Rightarrow> s1))"

text \<open>
  A response of the recognition service, as far as the \<^verbatim>\<open>data\<close> callback looks into it.
  \<open>None\<close> is a field that is missing or null; a missing and an empty transcript are both
  falsy.
\<close>

record alternative =
  transcript :: "string option"

record speech_result =
  alternatives :: "alternative list option"
  is_final :: "bool option"

record response =
  results :: "speech_result list option"
  speechEventType :: "string option"

text \<open>
  Both variants of the file have the same \<^verbatim>\<open>data\<close> callback; the newer one adds log
  lines in the branches that send nothing.
\<close>

definition stream_on_data :: "response \<Rightarrow> session \<Rightarrow> session" where
  "stream_on_data d s =
     (case results d of
        Some (result # more_results) \<Rightarrow>
          (case alternatives result of
             Some (first # more_alternatives) \<Rightarrow>
               (let isFinal = (case is_final result of Some b \<Rightarrow> b | None \<Rightarrow> False) in
                case transcript first of
                  Some t \<Rightarrow>
                    (if t \<noteq> [] then (if ws_open s then ws_send (TranscriptMsg t isFinal) s else s)
                     else s)
                | None \<Rightarrow> s)
           | _ \<Rightarrow> s)
      | _ \<Rightarrow> s)"

definition stream_on_end :: "session \<Rightarrow> session" where
  "stream_on_end s = s"

definition stream_on_close :: "session \<Rightarrow> session" where
  "stream_on_close s = s\<lparr>recognizeStream := None\<rparr>"

subsection \<open>Audio frames\<close>

text \<open>
  \<^verbatim>\<open>processAndSendAudio\<close>. After the length check the copy into a fresh \<^verbatim>\<open>ArrayBuffer\<close>
  starts at offset 0 and has a length that is a multiple of 4, so the construction of the
  \<^verbatim>\<open>Float32Array\<close> cannot throw and the first \<^verbatim>\<open>catch\<close> is dead.
\<close>

definition processAndSendAudio :: "byte list \<Rightarrow> session \<Rightarrow> session" where
  "processAndSendAudio audioBuffer s =
     (if length audioBuffer mod 4 \<noteq> 0 then s
      else
        (let float32Array = Float32Array audioBuffer;
             int16Array = float32_to_int16 float32Array
         in case recognizeStream s of
              Some h \<Rightarrow>
                (if \<not> destroyed (streams s ! h) \<and> writable (streams s ! h)
                 then stream_write h (int16_bytes int16Array) s
                 else s)
            | None \<Rightarrow> s))"

text \<open>The callback given to \<^verbatim>\<open>setTimeout\<close> after the stream was started.\<close>

definition first_chunk_timeout :: "byte list \<Rightarrow> session \<Rightarrow> session" where
  "first_chunk_timeout message s =
     (if stream_ready s then processAndSendAudio message s else s)"

subsection \<open>Messages of the client\<close>

text \<open>
  The callback is typed \<^verbatim>\<open>(message: Buffer | string)\<close> and starts with the test
  \<^verbatim>\<open>typeof message === 'string'\<close>. In that branch the text goes through \<^verbatim>\<open>JSON.parse\<close>,
  which is the language's; the model takes its outcome. Reading \<^verbatim>\<open>.command\<close> of \<^verbatim>\<open>null\<close>
  throws into the same \<^verbatim>\<open>catch\<close> as a syntax error; on any other value that is not an
  object with that property it gives \<^verbatim>\<open>undefined\<close>. An object is given by its properties.
\<close>

datatype json =
    JNull
  | JBool bool
  | JNumber rat
  | JString string
  | JArray "json list"
  | JObject "(string \<times> json) list"

datatype message = StringMsg "json option" | BufferMsg "byte list" | OtherMsg

text \<open>\<^verbatim>\<open>command.command === 'stopStreaming'\<close>, for a value that is not \<^verbatim>\<open>null\<close>.\<close>

definition command_is_stop :: "json \<Rightarrow> bool" where
  "command_is_stop command =
     (case command of
        JObject props \<Rightarrow> map_of props ''command'' = Some (JString ''stopStreaming'')
      | _ \<Rightarrow> False)"

definition ws_on_message :: "message \<Rightarrow> create_result \<Rightarrow> session \<Rightarrow> session" where
  "ws_on_message message r s =
     (case message of
        StringMsg parsed \<Rightarrow>
          (case parsed of
             None \<Rightarrow> s
           | Some JNull \<Rightarrow> s
           | Some command \<Rightarrow>
               (if command_is_stop command then
                  (case recognizeStream s of
                     Some h \<Rightarrow>
                       (if \<not> destroyed (streams s ! h) \<and> writable (streams s ! h)
                        then stream_end h s
                        else s)
                   | None \<Rightarrow> s)
                else s))
      | BufferMsg buf \<Rightarrow>
          (case recognizeStream s of
             None \<Rightarrow>
               (let s1 = startGoogleStream r s in s1\<lparr>timers := timers s1 @ [buf]\<rparr>)
           | Some h \<Rightarrow>
               (if destroyed (streams s ! h) then s
                else if writable (streams s ! h) then processAndSendAudio buf s
                else s))
      | OtherMsg \<Rightarrow> s)"

text \<open>
  What the client puts on the wire is a frame, text or binary. The file imports
  \<^verbatim>\<open>WebSocketServer\<close> by name and takes the reason of a close as a \<^verbatim>\<open>Buffer\<close>, which is the
  interface of the \<^verbatim>\<open>ws\<close> library from version 8 on. That library emits \<^verbatim>\<open>message\<close> with a
  \<^verbatim>\<open>Buffer\<close> for every frame, the bytes of the text for a text frame, and tells the two
  apart by a second argument the callback does not take. So the callback is never handed a
  string: the first branch of \<^verbatim>\<open>ws_on_message\<close> is kept as the source has it, and no frame
  reaches it.
\<close>

datatype frame = TextFrame string | BinaryFrame "byte list"

definition ws_emit_message :: "frame \<Rightarrow> message" where
  "ws_emit_message f =
     (case f of
        TextFrame text \<Rightarrow> BufferMsg (map of_char text)
      | BinaryFrame buf \<Rightarrow> BufferMsg buf)"

subsection \<open>Close and error of the client connection\<close>

definition ws_on_close :: "session \<Rightarrow> session" where
  "ws_on_close s =
     (let s1 = (case recognizeStream s of
                  Some h \<Rightarrow>
                    (if \<not> destroyed (streams s ! h)
                     then (if writable (streams s ! h) then stream_end h s else s)
                     else s)
                | None \<Rightarrow> s)
      in s1\<lparr>recognizeStream := None\<rparr>)"

text \<open>The older variant ends and destroys the stream, without looking at \<^verbatim>\<open>writable\<close>.\<close>

definition ws_on_close_old :: "session \<Rightarrow> session" where
  "ws_on_close_old s =
     (let s1 = (case recognizeStream s of
                  Some h \<Rightarrow>
                    (if \<not> destroyed (streams s ! h)
                     then stream_destroy h (stream_end h s)
                     else s)
                | None \<Rightarrow> s)
      in s1\<lparr>recognizeStream := None\<rparr>)"

definition ws_on_error :: "session \<Rightarrow> session" where
  "ws_on_error s =
     (let s1 = (case recognizeStream s of
                  Some h \<Rightarrow> (if \<not> destroyed (streams s ! h) then stream_destroy h s else s)
                | None \<Rightarrow> s)
      in s1\<lparr>recognizeStream := None\<rparr>)"

subsection \<open>The event loop\<close>

text \<open>
  Callbacks run one at a time. An event is a callback the runtime invokes, with what the
  runtime supplies, or a change the libraries make on their own: a stream changing its
  flags, the connection leaving the open state. The \<^verbatim>\<open>close\<close> event of the connection is
  emitted once the connection is closed. A frame \<open>f\<close> of the client is the event
  \<open>WsMessage (ws_emit_message f) r\<close>.
\<close>

datatype event =
    WsMessage message create_result
  | TimerFires
  | StreamError string
  | StreamData response
  | StreamEnd
  | StreamClose
  | WsClose
  | WsError
  | StreamFlags nat stream
  | WsLeavesOpen

definition step :: "event \<Rightarrow> session \<Rightarrow> session" where
  "step ev s =
     (case ev of
        WsMessage message r \<Rightarrow> ws_on_message message r s
      | TimerFires \<Rightarrow>
          (case timers s of
             [] \<Rightarrow> s
           | message # rest \<Rightarrow> first_chunk_timeout message (s\<lparr>timers := rest\<rparr>))
      | StreamError err_message \<Rightarrow> stream_on_error err_message s
      | StreamData d \<Rightarrow> stream_on_data d s
      | StreamEnd \<Rightarrow> stream_on_end s
      | StreamClose \<Rightarrow> stream_on_close s
      | WsClose \<Rightarrow> ws_on_close (s\<lparr>ws_open := False\<rparr>)
      | WsError \<Rightarrow> ws_on_error s
      | StreamFlags h st \<Rightarrow> s\<lparr>streams := (streams s)[h := st]\<rparr>
      | WsLeavesOpen \<Rightarrow> s\<lparr>ws_open := False\<rparr>)"

fun run :: "event list \<Rightarrow> session \<Rightarrow> session" where
  "run [] s = s"
| "run (ev # evs) s = run evs (step ev s)"

inductive reachable :: "session \<Rightarrow> bool" where
  reachable_initial: "reachable initial"
| reachable_step: "reachable s \<Longrightarrow> reachable (step ev s)"

section \<open>The specification's reading of the conversion\<close>

text \<open>
  The sample the specification prescribes for a finite input \<open>f\<close>:
  \<^verbatim>\<open>clamp(round(f * 32767), -32768, 32767)\<close>, rounding to the nearest integer.
\<close>

definition spec_sample :: "rat \<Rightarrow> int" where
  "spec_sample f = max (- 32768) (min 32767 (round (f * 32767)))"


section \<open>Sessions and events used in the statements\<close>

text \<open>
  A message handed to the callback as a \<^verbatim>\<open>Buffer\<close>, which every frame of the client is:
  the only event that can start a stream.
\<close>

definition is_audio_message :: "event \<Rightarrow> bool" where
  "is_audio_message ev = (case ev of WsMessage (BufferMsg buf) r \<Rightarrow> True | _ \<Rightarrow> False)"

text \<open>
  A session that is streaming: it holds stream 0, which is live and writable, the
  connection is open, nothing is pending.
\<close>

definition active_session :: session where
  "active_session =
     \<lparr>recognizeStream = Some 0, streams = [\<lparr>destroyed = False, writable = True\<rparr>],
      ws_open = True, timers = [], upstream_calls = [], client_sent = []\<rparr>"

text \<open>
  Two texts a client may send: the stop command, 27 bytes long, and a command the code
  does not know, 16 bytes long.
\<close>

definition stop_text :: string where
  \<open>stop_text = ''{"command":"stopStreaming"}''\<close>

definition other_text :: string where
  \<open>other_text = ''{"command":"go"}''\<close>



section \<open>Properties of the conversion\<close>

lemma floor_rat_numeral_div [simp]:
  "\<lfloor>numeral a / numeral b :: rat\<rfloor> = numeral a div numeral b"
  using floor_divide_of_int_eq [of "numeral a" "numeral b", where ?'a = rat] by simp

lemma ceiling_rat_neg_numeral_div [simp]:
  "\<lceil>- (numeral a / numeral b) :: rat\<rceil> = - (numeral a div numeral b)"
  by (simp add: ceiling_def)

lemma length_convert_loop: "length (convert_loop i fs out) = length out"
proof (induction i fs out rule: convert_loop.induct)
  case (1 i fs out)
  show ?case
  proof (cases "i < length fs")
    case True
    with "1" show ?thesis by (simp add: convert_loop.simps [of i fs out])
  next
    case False
    then show ?thesis by (simp add: convert_loop.simps [of i fs out])
  qed
qed

lemma nth_convert_loop:
  "length out = length fs \<Longrightarrow> j < length fs \<Longrightarrow>
   convert_loop i fs out ! j = (if i \<le> j then convert_sample (fs ! j) else out ! j)"
proof (induction i fs out rule: convert_loop.induct)
  case (1 i fs out)
  show ?case
  proof (cases "i < length fs")
    case True
    have "convert_loop i fs out ! j =
          convert_loop (Suc i) fs (out[i := convert_sample (fs ! i)]) ! j"
      using True by (simp add: convert_loop.simps [of i fs out])
    also have "\<dots> = (if Suc i \<le> j then convert_sample (fs ! j)
                     else (out[i := convert_sample (fs ! i)]) ! j)"
      using "1.IH" [OF True] "1.prems" by simp
    also have "\<dots> = (if i \<le> j then convert_sample (fs ! j) else out ! j)"
      using True "1.prems" by (cases "i = j") auto
    finally show ?thesis .
  next
    case False
    with "1.prems" show ?thesis by (simp add: convert_loop.simps [of i fs out])
  qed
qed

lemma float32_to_int16_eq_map: "float32_to_int16 fs = map convert_sample fs"
  by (rule nth_equalityI)
     (simp_all add: float32_to_int16_def length_convert_loop nth_convert_loop)

lemma length_Float32Array: "length (Float32Array buf) = length buf div 4"
  by (simp add: Float32Array_def)

lemma nth_Float32Array:
  "i < length buf div 4 \<Longrightarrow> Float32Array buf ! i = float32_bits buf i"
  by (simp add: Float32Array_def)

lemma js_trunc_mono: "x \<le> y \<Longrightarrow> js_trunc x \<le> js_trunc y"
proof -
  assume xy: "x \<le> y"
  consider "0 \<le> x" | "x < 0" "y < 0" | "x < 0" "0 \<le> y" by linarith
  then show ?thesis
  proof cases
    case 1
    with xy show ?thesis by (simp add: js_trunc_def floor_mono)
  next
    case 2
    with xy show ?thesis by (simp add: js_trunc_def ceiling_mono)
  next
    case 3
    then have "\<lceil>x\<rceil> \<le> 0" and "0 \<le> \<lfloor>y\<rfloor>" by (simp_all add: ceiling_le_zero)
    then have "\<lceil>x\<rceil> \<le> \<lfloor>y\<rfloor>" by linarith
    with 3 show ?thesis by (simp add: js_trunc_def not_le)
  qed
qed

lemma js_trunc_of_int: "js_trunc (of_int k) = k"
  by (simp add: js_trunc_def)

lemma js_trunc_clamp_range:
  "- 32768 \<le> js_trunc (max (- 32768) (min 32767 r)) \<and>
   js_trunc (max (- 32768) (min 32767 r)) \<le> 32767"
proof -
  let ?c = "max (- 32768) (min 32767 r)"
  have lo: "of_int (- 32768) \<le> ?c" by simp
  have hi: "?c \<le> of_int 32767" by simp
  have "js_trunc (of_int (- 32768)) \<le> js_trunc ?c"
    using lo by (rule js_trunc_mono)
  moreover have "js_trunc ?c \<le> js_trunc (of_int 32767)"
    using hi by (rule js_trunc_mono)
  ultimately show ?thesis by (simp only: js_trunc_of_int)
qed

lemma sint_word16_of_int:
  "- 32768 \<le> k \<Longrightarrow> k \<le> 32767 \<Longrightarrow> sint (word_of_int k :: 16 word) = k"
  by (simp add: sint_sbintrunc' signed_take_bit_int_eq_self)

lemma sint_convert_sample:
  "sint (convert_sample w) =
     (case f32_value w of
        NaN \<Rightarrow> 0
      | Inf s \<Rightarrow> (if s then 32767 else - 32768)
      | Fin r \<Rightarrow> js_trunc (max (- 32768) (min 32767 (r * 32767))))"
proof (cases "f32_value w")
  case NaN
  then show ?thesis
    by (simp add: convert_sample_def times_32767_def Math_min_def Math_max_def ToInt16_def)
next
  case (Inf s)
  then show ?thesis
    by (simp add: convert_sample_def times_32767_def Math_min_def Math_max_def ToInt16_def
        js_trunc_def sint_word16_of_int)
next
  case (Fin r)
  then show ?thesis
    using js_trunc_clamp_range [of "r * 32767"]
    by (simp add: convert_sample_def times_32767_def Math_min_def Math_max_def ToInt16_def
        sint_word16_of_int)
qed

text \<open>
  The product with 32767 is a double: its significand stays below \<open>2\<^sup>3\<^sup>9\<close> and its
  exponent within the range of the binary32 exponents.
\<close>

lemma f32_fraction_less: "f32_fraction w < 2 ^ 23"
proof -
  have "w AND 0x7FFFFF \<le> 0x7FFFFF" by (rule word_and_le1)
  then have "unat (w AND 0x7FFFFF) \<le> unat (0x7FFFFF :: 32 word)"
    by (simp add: word_le_nat_alt)
  then show ?thesis by (simp add: f32_fraction_def)
qed

lemma f32_exponent_le: "f32_exponent w \<le> 255"
proof -
  have "drop_bit 23 w AND 0xFF \<le> 0xFF" by (rule word_and_le1)
  then have "unat (drop_bit 23 w AND 0xFF) \<le> unat (0xFF :: 32 word)"
    by (simp add: word_le_nat_alt)
  then show ?thesis by (simp add: f32_exponent_def)
qed

lemma f32_magnitude_nonneg: "0 \<le> f32_magnitude w"
  by (simp add: f32_magnitude_def Let_def)

lemma times_32767_exact:
  assumes "f32_value w = Fin r"
  shows "\<exists>m k. m < 2 ^ 39 \<and>
           ((k \<le> 149 \<and> \<bar>r * 32767\<bar> = of_nat m / 2 ^ k) \<or>
            (k \<le> 104 \<and> \<bar>r * 32767\<bar> = of_nat m * 2 ^ k))"
proof -
  let ?e = "f32_exponent w" and ?f = "f32_fraction w"
  from assms have fin: "?e \<noteq> 255" and r: "\<bar>r\<bar> = f32_magnitude w"
    using f32_magnitude_nonneg [of w] by (auto simp: f32_value_def split: if_splits)
  from fin f32_exponent_le [of w] have e: "?e < 255" by simp
  have f: "?f < 2 ^ 23" by (rule f32_fraction_less)
  have abs: "\<bar>r * 32767\<bar> = f32_magnitude w * 32767"
    using r by (simp add: abs_mult)
  consider "?e = 0" | "0 < ?e" "?e < 150" | "150 \<le> ?e" by linarith
  then show ?thesis
  proof cases
    case 1
    have "?f * 32767 < 2 ^ 39" using f by simp
    moreover have "\<bar>r * 32767\<bar> = of_nat (?f * 32767) / 2 ^ 149"
      using 1 abs by (simp add: f32_magnitude_def)
    ultimately show ?thesis by (intro exI [of _ "?f * 32767"] exI [of _ 149]) simp
  next
    case 2
    have "(2 ^ 23 + ?f) * 32767 < 2 ^ 39" using f by simp
    moreover have "\<bar>r * 32767\<bar> = of_nat ((2 ^ 23 + ?f) * 32767) / 2 ^ (150 - ?e)"
      using 2 abs by (simp add: f32_magnitude_def)
    moreover have "150 - ?e \<le> 149" using 2 by simp
    ultimately show ?thesis
      by (intro exI [of _ "(2 ^ 23 + ?f) * 32767"] exI [of _ "150 - ?e"]) simp
  next
    case 3
    have "(2 ^ 23 + ?f) * 32767 < 2 ^ 39" using f by simp
    moreover have "\<bar>r * 32767\<bar> = of_nat ((2 ^ 23 + ?f) * 32767) * 2 ^ (?e - 150)"
      using 3 abs by (simp add: f32_magnitude_def)
    moreover have "?e - 150 \<le> 104" using e by simp
    ultimately show ?thesis
      by (intro exI [of _ "(2 ^ 23 + ?f) * 32767"] exI [of _ "?e - 150"]) simp
  qed
qed


section \<open>Properties of the session\<close>

lemmas call_defs = ws_send_def stream_write_def stream_end_def stream_destroy_def

lemmas handler_defs =
  startGoogleStream_def stream_on_error_def stream_on_data_def stream_on_end_def
  stream_on_close_def processAndSendAudio_def first_chunk_timeout_def ws_on_message_def
  ws_on_close_def ws_on_error_def stream_ready_def

lemma active_session_reachable: "reachable active_session"
proof -
  let ?frame = "[1, 2, 3, 4, 5, 6, 7] :: byte list"
  let ?ev = "WsMessage (BufferMsg ?frame) (Returns \<lparr>destroyed = False, writable = True\<rparr>)"
  have "step TimerFires (step ?ev initial) = active_session"
    by (simp add: step_def initial_def active_session_def handler_defs call_defs)
  moreover have "reachable (step TimerFires (step ?ev initial))"
    by (intro reachable.intros)
  ultimately show ?thesis by simp
qed

lemma step_absent:
  assumes "recognizeStream s = None" and "\<not> is_audio_message ev"
  shows "recognizeStream (step ev s) = None \<and> upstream_calls (step ev s) = upstream_calls s
         \<and> length (streams (step ev s)) = length (streams s)"
proof (cases ev)
  case (WsMessage m r)
  with assms show ?thesis
    by (cases m) (auto simp: step_def is_audio_message_def handler_defs call_defs
        split: option.splits json.splits)
next
  case TimerFires
  with assms show ?thesis
    by (auto simp: step_def handler_defs call_defs split: list.splits)
next
  case (StreamData d)
  with assms show ?thesis
    by (auto simp: step_def handler_defs call_defs split: option.splits list.splits)
qed (use assms in \<open>auto simp: step_def handler_defs call_defs\<close>)

lemma run_absent:
  "recognizeStream s = None \<Longrightarrow> \<forall>ev \<in> set evs. \<not> is_audio_message ev \<Longrightarrow>
   recognizeStream (run evs s) = None \<and> upstream_calls (run evs s) = upstream_calls s
   \<and> length (streams (run evs s)) = length (streams s)"
proof (induction evs arbitrary: s)
  case Nil
  then show ?case by simp
next
  case (Cons ev evs)
  from Cons.prems have st: "recognizeStream (step ev s) = None"
      "upstream_calls (step ev s) = upstream_calls s"
      "length (streams (step ev s)) = length (streams s)"
    using step_absent [of s ev] by simp_all
  from Cons.IH [OF st(1)] Cons.prems(2) st show ?case by simp
qed






lemma ws_emit_message_is_buffer: "\<exists>buf. ws_emit_message f = BufferMsg buf"
  by (cases f) (simp_all add: ws_emit_message_def)


section \<open>The claims\<close>

lemma f32_quarter: "f32_value (float32_bits [0, 0, 0x80, 0x3E] 0) = Fin (1 / 4)"
  by (simp add: f32_value_def float32_bits_def f32_exponent_def f32_fraction_def
      f32_sign_def f32_magnitude_def)

text \<open>
  Claim C1, as the code has it. For a frame whose byte length is a multiple of 4, the
  conversion yields one 16-bit sample for each four bytes, and the sample at index \<open>i\<close>
  depends on the \<open>i\<close>-th little-endian binary32 value of the frame alone: it is
  \<open>input[i] \<times> 32767\<close> clamped to \<open>[-32768, 32767]\<close> and then truncated towards zero. The
  infinities give the bounds and not-a-number gives 0. The code does not round to the
  nearest integer.
\<close>

theorem conversion_truncates:
  assumes "length frame mod 4 = 0" and "i < length frame div 4"
  shows "length (float32_to_int16 (Float32Array frame)) = length frame div 4 \<and>
         sint (float32_to_int16 (Float32Array frame) ! i) =
           (case f32_value (float32_bits frame i) of
              NaN \<Rightarrow> 0
            | Inf s \<Rightarrow> (if s then 32767 else - 32768)
            | Fin r \<Rightarrow> js_trunc (max (- 32768) (min 32767 (r * 32767))))"
  using assms
  by (simp add: float32_to_int16_eq_map length_Float32Array nth_Float32Array sint_convert_sample)

theorem conversion_truncates_witness:
  "length [0, 0, 0x80, 0x3E :: byte] mod 4 = 0 \<and>
   (0::nat) < length [0, 0, 0x80, 0x3E :: byte] div 4 \<and>
   length (float32_to_int16 (Float32Array [0, 0, 0x80, 0x3E])) = 1 \<and>
   sint (float32_to_int16 (Float32Array [0, 0, 0x80, 0x3E]) ! 0) = 8191"
  using conversion_truncates [of "[0, 0, 0x80, 0x3E]" 0]
  by (simp add: f32_quarter js_trunc_def)

text \<open>
  Claim C1 as stated fails on the four bytes \<open>00 00 80 3E\<close>, the binary32 value 0.25:
  \<open>0.25 \<times> 32767 = 8191.75\<close>, which the code stores as 8191 and the stated formula
  rounds to 8192.
\<close>

theorem conversion_rounds_counterexample:
  "f32_value (float32_bits [0, 0, 0x80, 0x3E] 0) = Fin (1 / 4) \<and>
   sint (float32_to_int16 (Float32Array [0, 0, 0x80, 0x3E]) ! 0) = 8191 \<and>
   spec_sample (1 / 4) = 8192 \<and>
   sint (float32_to_int16 (Float32Array [0, 0, 0x80, 0x3E]) ! 0) \<noteq> spec_sample (1 / 4)"
proof -
  have "Float32Array [0, 0, 0x80, 0x3E] = [float32_bits [0, 0, 0x80, 0x3E] 0]"
    by (simp add: Float32Array_def)
  then have "sint (float32_to_int16 (Float32Array [0, 0, 0x80, 0x3E]) ! 0) = 8191"
    by (simp add: float32_to_int16_eq_map sint_convert_sample f32_quarter js_trunc_def)
  moreover have "spec_sample (1 / 4) = 8192"
    by (simp add: spec_sample_def round_def)
  ultimately show ?thesis using f32_quarter by simp
qed

text \<open>
  Claim C2, as the code has it. A binary frame whose byte length is not a multiple of 4 is
  never written upstream: not by the message callback, in any state and whatever the
  outcome of a stream creation, and not by the delayed retry of a first chunk.
  \<^verbatim>\<open>processAndSendAudio\<close> leaves every state as it is. When the session holds a stream
  reference, the message callback changes nothing and sends nothing. When it holds none,
  the callback starts the upstream stream and sets the timer before the length is looked
  at, as for any first audio chunk.
\<close>

theorem malformed_frame_dropped:
  assumes "length frame mod 4 \<noteq> 0"
  shows "upstream_calls (ws_on_message (BufferMsg frame) r s) = upstream_calls s \<and>
         processAndSendAudio frame s' = s' \<and>
         first_chunk_timeout frame s' = s' \<and>
         (recognizeStream s1 \<noteq> None \<longrightarrow> ws_on_message (BufferMsg frame) r s1 = s1) \<and>
         (recognizeStream s2 = None \<longrightarrow>
            ws_on_message (BufferMsg frame) r s2 =
              (startGoogleStream r s2)\<lparr>timers := timers s2 @ [frame]\<rparr>)"
proof -
  have drop: "processAndSendAudio frame t = t" for t
    using assms by (simp add: processAndSendAudio_def)
  have "upstream_calls (ws_on_message (BufferMsg frame) r s) = upstream_calls s"
    by (cases r) (auto simp: ws_on_message_def drop startGoogleStream_def ws_send_def Let_def
        split: option.splits)
  moreover have "first_chunk_timeout frame s' = s'"
    by (simp add: first_chunk_timeout_def drop)
  moreover have "recognizeStream s1 \<noteq> None \<longrightarrow> ws_on_message (BufferMsg frame) r s1 = s1"
    by (auto simp: ws_on_message_def drop)
  moreover have "recognizeStream s2 = None \<longrightarrow>
      ws_on_message (BufferMsg frame) r s2 = (startGoogleStream r s2)\<lparr>timers := timers s2 @ [frame]\<rparr>"
    by (cases r) (auto simp: ws_on_message_def startGoogleStream_def ws_send_def Let_def)
  ultimately show ?thesis using drop by simp
qed

theorem malformed_frame_dropped_witness:
  "length [1, 2, 3, 4, 5, 6, 7 :: byte] mod 4 \<noteq> 0 \<and>
   recognizeStream active_session \<noteq> None \<and>
   recognizeStream initial = None \<and>
   ws_on_message (BufferMsg [1, 2, 3, 4, 5, 6, 7]) Throws active_session = active_session \<and>
   upstream_calls (ws_on_message (BufferMsg [1, 2, 3, 4, 5, 6, 7]) Throws initial) = [] \<and>
   first_chunk_timeout [1, 2, 3, 4, 5, 6, 7] active_session = active_session"
  using malformed_frame_dropped [of "[1, 2, 3, 4, 5, 6, 7]" Throws initial active_session
      active_session initial]
  by (simp add: active_session_def initial_def startGoogleStream_def ws_send_def)

text \<open>
  Claim C2 as stated fails in the initial state, where no stream is held: a 7-byte frame
  makes the session hold stream 0, and when the creation throws while the connection is
  open the client receives an error message.
\<close>

theorem malformed_frame_starts_stream_counterexample:
  "length [1, 2, 3, 4, 5, 6, 7 :: byte] mod 4 \<noteq> 0 \<and>
   recognizeStream initial = None \<and>
   recognizeStream (ws_on_message (BufferMsg [1, 2, 3, 4, 5, 6, 7])
      (Returns \<lparr>destroyed = False, writable = True\<rparr>) initial) = Some 0 \<and>
   ws_on_message (BufferMsg [1, 2, 3, 4, 5, 6, 7])
      (Returns \<lparr>destroyed = False, writable = True\<rparr>) initial \<noteq> initial \<and>
   client_sent initial = [] \<and>
   client_sent (ws_on_message (BufferMsg [1, 2, 3, 4, 5, 6, 7]) Throws initial) =
     [ErrorMsg ''Internal failure starting transcription service.'']"
proof -
  let ?s = "ws_on_message (BufferMsg [1, 2, 3, 4, 5, 6, 7])
      (Returns \<lparr>destroyed = False, writable = True\<rparr>) initial"
  have h: "recognizeStream ?s = Some 0"
    by (simp add: ws_on_message_def startGoogleStream_def initial_def)
  have "recognizeStream initial = None" by (simp add: initial_def)
  with h have "?s \<noteq> initial" by auto
  with h show ?thesis
    by (simp add: ws_on_message_def startGoogleStream_def ws_send_def initial_def)
qed

lemma Float32Array_zeros: "Float32Array (replicate (4 * n) 0) = replicate n 0"
proof -
  have "float32_bits (replicate (4 * n) 0) i = 0" if "i < n" for i
    using that by (simp add: float32_bits_def)
  then have "map (float32_bits (replicate (4 * n) 0)) [0 ..< n] = map (\<lambda>i. 0) [0 ..< n]"
    by (intro map_cong) auto
  then show ?thesis by (simp add: Float32Array_def map_replicate_const)
qed

lemma convert_sample_zero: "convert_sample 0 = 0"
  by (simp add: convert_sample_def f32_value_def f32_exponent_def f32_fraction_def f32_sign_def
      f32_magnitude_def times_32767_def Math_min_def Math_max_def ToInt16_def js_trunc_def)

lemma float32_to_int16_zeros: "float32_to_int16 (replicate n 0) = replicate n 0"
  by (simp add: float32_to_int16_eq_map convert_sample_zero)

lemma int16_bytes_zeros: "int16_bytes (replicate n 0) = replicate (2 * n) 0"
  by (induction n) (simp_all add: int16_bytes_def)

lemma silent_frame_samples:
  "float32_to_int16 (Float32Array (replicate 4000 0)) = replicate 1000 0"
  using Float32Array_zeros [of 1000] by (simp add: float32_to_int16_zeros)

text \<open>
  Claim C3, as the code has it. A frame of 4000 zero bytes is 1000 binary32 samples. With
  a live, writable stream held, the one call made is a write of 1000 zero-valued 16-bit
  samples, which are 2000 zero bytes; the message callback does the same as
  \<^verbatim>\<open>processAndSendAudio\<close>, and nothing is sent to the client.
\<close>

theorem silent_frame_write:
  assumes "recognizeStream s = Some h" and "\<not> destroyed (streams s ! h)"
    and "writable (streams s ! h)"
  shows "float32_to_int16 (Float32Array (replicate 4000 0)) = replicate 1000 0 \<and>
         int16_bytes (replicate 1000 0) = replicate 2000 0 \<and>
         processAndSendAudio (replicate 4000 0) s =
           s\<lparr>upstream_calls := upstream_calls s @ [Write h (int16_bytes (replicate 1000 0))]\<rparr> \<and>
         ws_on_message (BufferMsg (replicate 4000 0)) r s = processAndSendAudio (replicate 4000 0) s \<and>
         client_sent (processAndSendAudio (replicate 4000 0) s) = client_sent s"
  using assms silent_frame_samples int16_bytes_zeros [of 1000]
  by (simp add: processAndSendAudio_def ws_on_message_def stream_write_def)

theorem silent_frame_write_witness:
  "recognizeStream active_session = Some 0 \<and> \<not> destroyed (streams active_session ! 0) \<and>
   writable (streams active_session ! 0) \<and>
   upstream_calls (processAndSendAudio (replicate 4000 0) active_session) =
     [Write 0 (replicate 2000 0)] \<and>
   client_sent (processAndSendAudio (replicate 4000 0) active_session) = []"
  using silent_frame_write [of active_session 0]
  by (simp add: active_session_def)

text \<open>
  Claim C3 as stated fails: the write for the 4000-byte silent frame carries 2000 bytes,
  that is 1000 samples, and differs from the bytes of 2000 samples.
\<close>

theorem silent_frame_2000_samples_counterexample:
  "recognizeStream active_session = Some 0 \<and> \<not> destroyed (streams active_session ! 0) \<and>
   writable (streams active_session ! 0) \<and>
   upstream_calls (processAndSendAudio (replicate 4000 0) active_session) =
     [Write 0 (int16_bytes (replicate 1000 0))] \<and>
   length (int16_bytes (replicate 1000 0)) = 2000 \<and>
   int16_bytes (replicate 1000 0) \<noteq> int16_bytes (replicate 2000 0)"
proof -
  have "length (int16_bytes (replicate 1000 0)) \<noteq> length (int16_bytes (replicate 2000 0))"
    by (simp add: int16_bytes_zeros)
  then have "int16_bytes (replicate 1000 0) \<noteq> int16_bytes (replicate 2000 0)"
    by metis
  then show ?thesis
    using silent_frame_samples
    by (simp add: processAndSendAudio_def stream_write_def active_session_def int16_bytes_zeros)
qed

text \<open>
  Claim C5, as the code has it. The \<^verbatim>\<open>error\<close> callback of the upstream stream, in both
  variants of the file: the client is sent exactly one error message when the connection is
  open and none otherwise, its text being a fixed prefix followed by the engine's message
  or, when that is empty, by a fallback; the reference is cleared. The stream that is
  destroyed is the one the session holds when the event arrives; when it holds none, no
  call is made and no stream changes. Nothing is retried: no stream is created, no timer
  is set, and whatever events follow, as long as no frame arrives from the client,
  the reference stays cleared and no stream is created.
\<close>

theorem upstream_error_terminates:
  "client_sent (stream_on_error m s) =
     client_sent s @
       (if ws_open s
        then [ErrorMsg (''Google API Error: '' @ (if m = [] then ''Unknown error'' else m))]
        else []) \<and>
   client_sent (stream_on_error_old m s) =
     client_sent s @
       (if ws_open s
        then [ErrorMsg (''Erro na API do Google: '' @ (if m = [] then ''Erro desconhecido'' else m))]
        else []) \<and>
   recognizeStream (stream_on_error m s) = None \<and>
   recognizeStream (stream_on_error_old m s) = None \<and>
   (recognizeStream s = Some h \<and> h < length (streams s) \<longrightarrow>
      destroyed (streams (stream_on_error m s) ! h) \<and>
      upstream_calls (stream_on_error m s) = upstream_calls s @ [Destroy h] \<and>
      destroyed (streams (stream_on_error_old m s) ! h) \<and>
      upstream_calls (stream_on_error_old m s) = upstream_calls s @ [Destroy h]) \<and>
   (recognizeStream s' = None \<longrightarrow>
      upstream_calls (stream_on_error m s') = upstream_calls s' \<and>
      streams (stream_on_error m s') = streams s' \<and>
      upstream_calls (stream_on_error_old m s') = upstream_calls s' \<and>
      streams (stream_on_error_old m s') = streams s') \<and>
   length (streams (stream_on_error m s)) = length (streams s) \<and>
   length (streams (stream_on_error_old m s)) = length (streams s) \<and>
   timers (stream_on_error m s) = timers s \<and>
   timers (stream_on_error_old m s) = timers s \<and>
   ((\<forall>ev \<in> set evs. \<not> is_audio_message ev) \<longrightarrow>
      recognizeStream (run evs (stream_on_error m s)) = None \<and>
      length (streams (run evs (stream_on_error m s))) = length (streams s))"
proof -
  have absent: "recognizeStream (stream_on_error m s) = None"
    by (simp add: stream_on_error_def Let_def)
  have len: "length (streams (stream_on_error m s)) = length (streams s)"
    by (simp add: stream_on_error_def stream_destroy_def ws_send_def Let_def split: option.splits)
  have "(\<forall>ev \<in> set evs. \<not> is_audio_message ev) \<longrightarrow>
      recognizeStream (run evs (stream_on_error m s)) = None \<and>
      length (streams (run evs (stream_on_error m s))) = length (streams s)"
    using run_absent [OF absent, of evs] len by simp
  moreover have "client_sent (stream_on_error m s) =
     client_sent s @
       (if ws_open s
        then [ErrorMsg (''Google API Error: '' @ (if m = [] then ''Unknown error'' else m))]
        else [])"
    by (simp add: stream_on_error_def stream_destroy_def ws_send_def Let_def split: option.splits)
  moreover have "client_sent (stream_on_error_old m s) =
     client_sent s @
       (if ws_open s
        then [ErrorMsg (''Erro na API do Google: '' @ (if m = [] then ''Erro desconhecido'' else m))]
        else [])"
    by (simp add: stream_on_error_old_def stream_destroy_def ws_send_def Let_def split: option.splits)
  moreover have "recognizeStream (stream_on_error_old m s) = None"
    by (simp add: stream_on_error_old_def stream_destroy_def ws_send_def Let_def split: option.splits)
  moreover have "recognizeStream s = Some h \<and> h < length (streams s) \<longrightarrow>
      destroyed (streams (stream_on_error m s) ! h) \<and>
      upstream_calls (stream_on_error m s) = upstream_calls s @ [Destroy h] \<and>
      destroyed (streams (stream_on_error_old m s) ! h) \<and>
      upstream_calls (stream_on_error_old m s) = upstream_calls s @ [Destroy h]"
    by (simp add: stream_on_error_def stream_on_error_old_def stream_destroy_def ws_send_def Let_def)
  moreover have "recognizeStream s' = None \<longrightarrow>
      upstream_calls (stream_on_error m s') = upstream_calls s' \<and>
      streams (stream_on_error m s') = streams s' \<and>
      upstream_calls (stream_on_error_old m s') = upstream_calls s' \<and>
      streams (stream_on_error_old m s') = streams s'"
    by (simp add: stream_on_error_def stream_on_error_old_def ws_send_def Let_def)
  moreover have "length (streams (stream_on_error_old m s)) = length (streams s)"
    by (simp add: stream_on_error_old_def stream_destroy_def ws_send_def Let_def split: option.splits)
  moreover have "timers (stream_on_error m s) = timers s"
    by (simp add: stream_on_error_def stream_destroy_def ws_send_def Let_def split: option.splits)
  moreover have "timers (stream_on_error_old m s) = timers s"
    by (simp add: stream_on_error_old_def stream_destroy_def ws_send_def Let_def split: option.splits)
  ultimately show ?thesis using absent len by blast
qed

theorem upstream_error_terminates_witness:
  "ws_open active_session \<and>
   recognizeStream active_session = Some 0 \<and> 0 < length (streams active_session) \<and>
   recognizeStream initial = None \<and>
   \<not> is_audio_message TimerFires \<and> \<not> is_audio_message StreamClose \<and>
   \<not> is_audio_message WsClose \<and>
   client_sent (stream_on_error ''quota'' active_session) =
     [ErrorMsg ''Google API Error: quota''] \<and>
   client_sent (stream_on_error [] active_session) =
     [ErrorMsg ''Google API Error: Unknown error''] \<and>
   upstream_calls (stream_on_error ''quota'' active_session) = [Destroy 0] \<and>
   destroyed (streams (stream_on_error ''quota'' active_session) ! 0) \<and>
   upstream_calls (stream_on_error ''quota'' initial) = [] \<and>
   recognizeStream (run [TimerFires, StreamClose, WsClose]
     (stream_on_error ''quota'' active_session)) = None"
  using upstream_error_terminates [of "''quota''" active_session 0 initial
      "[TimerFires, StreamClose, WsClose]"]
    upstream_error_terminates [of "[]" active_session 0 initial "[]"]
  by (simp add: active_session_def initial_def is_audio_message_def)

text \<open>
  Claim C5 as stated fails for an error event that arrives after the client has
  disconnected. The \<^verbatim>\<open>close\<close> callback of \<^verbatim>\<open>src/server.ts\<close> has half-closed stream 0 and
  cleared the reference; the \<^verbatim>\<open>error\<close> callback then finds no reference, makes no call,
  and stream 0 is left undestroyed.
\<close>

theorem upstream_error_after_disconnect_counterexample:
  "reachable (step WsClose active_session) \<and>
   recognizeStream (step WsClose active_session) = None \<and>
   upstream_calls (step WsClose active_session) = [End 0] \<and>
   upstream_calls (step (StreamError ''deadline'') (step WsClose active_session)) = [End 0] \<and>
   \<not> destroyed (streams (step (StreamError ''deadline'') (step WsClose active_session)) ! 0)"
proof -
  have "reachable (step WsClose active_session)"
    using active_session_reachable by (rule reachable_step)
  then show ?thesis
    by (simp add: step_def active_session_def handler_defs call_defs)
qed

text \<open>
  Claim C6, as the code has it. When \<^verbatim>\<open>streamingRecognize\<close> throws, the client is sent
  the error text \<^verbatim>\<open>Internal failure starting transcription service.\<close> if the connection
  is open and nothing otherwise, no call is made on any stream, and the session holds no
  stream afterwards. For an audio frame arriving while no stream is held: the delayed
  retry of that frame finds no stream and does nothing, and the next audio frame starts a
  stream again, which the session then holds.
\<close>

theorem creation_failure_returns_to_idle:
  "client_sent (startGoogleStream Throws s) =
     client_sent s @
       (if ws_open s then [ErrorMsg ''Internal failure starting transcription service.''] else []) \<and>
   recognizeStream (startGoogleStream Throws s) = None \<and>
   streams (startGoogleStream Throws s) = streams s \<and>
   upstream_calls (startGoogleStream Throws s) = upstream_calls s \<and>
   (recognizeStream s = None \<longrightarrow>
      ws_on_message (BufferMsg buf) Throws s =
        (startGoogleStream Throws s)\<lparr>timers := timers s @ [buf]\<rparr> \<and>
      recognizeStream (ws_on_message (BufferMsg buf) Throws s) = None \<and>
      first_chunk_timeout buf (ws_on_message (BufferMsg buf) Throws s) =
        ws_on_message (BufferMsg buf) Throws s \<and>
      recognizeStream (ws_on_message (BufferMsg buf') (Returns st)
                         (ws_on_message (BufferMsg buf) Throws s)) = Some (length (streams s)) \<and>
      streams (ws_on_message (BufferMsg buf') (Returns st)
                 (ws_on_message (BufferMsg buf) Throws s)) = streams s @ [st])"
  by (simp add: startGoogleStream_def ws_on_message_def ws_send_def first_chunk_timeout_def
      stream_ready_def Let_def)

theorem creation_failure_returns_to_idle_witness:
  "ws_open initial \<and> recognizeStream initial = None \<and>
   client_sent (ws_on_message (BufferMsg []) Throws initial) =
     [ErrorMsg ''Internal failure starting transcription service.''] \<and>
   recognizeStream (ws_on_message (BufferMsg []) Throws initial) = None \<and>
   recognizeStream (ws_on_message (BufferMsg []) (Returns \<lparr>destroyed = False, writable = True\<rparr>)
                      (ws_on_message (BufferMsg []) Throws initial)) = Some 0"
  using creation_failure_returns_to_idle [of initial "[]" "[]" "\<lparr>destroyed = False, writable = True\<rparr>"]
  by (simp add: initial_def handler_defs call_defs)

text \<open>
  Claim C6 as stated fails on the text of the message: what an open client receives in
  the initial state is not the text the claim quotes.
\<close>

theorem creation_failure_text_counterexample:
  "ws_open initial \<and>
   client_sent (startGoogleStream Throws initial) =
     [ErrorMsg ''Internal failure starting transcription service.''] \<and>
   client_sent (startGoogleStream Throws initial) \<noteq>
     [ErrorMsg ''internal failure starting transcription'']"
  by (simp add: startGoogleStream_def ws_send_def initial_def)

text \<open>
  Claim C7, as the code has it. The client disconnects while the session holds a live,
  writable stream. The \<^verbatim>\<open>close\<close> callback of \<^verbatim>\<open>src/server.ts\<close> ends the write side and
  does not destroy the stream; the callback of the older variant ends and destroys it.
  Both clear the reference. After the \<^verbatim>\<open>close\<close> event of \<^verbatim>\<open>src/server.ts\<close>, whatever
  events follow (pending timers, events of the stream), as long as no frame arrives
  from the client, no further call is made on any stream, so nothing is written, and the
  reference stays cleared.
\<close>

theorem disconnect_while_streaming:
  assumes "recognizeStream s = Some h" and "h < length (streams s)"
    and "\<not> destroyed (streams s ! h)" and "writable (streams s ! h)"
  shows "upstream_calls (ws_on_close s) = upstream_calls s @ [End h] \<and>
         recognizeStream (ws_on_close s) = None \<and>
         \<not> destroyed (streams (ws_on_close s) ! h) \<and>
         upstream_calls (ws_on_close_old s) = upstream_calls s @ [End h, Destroy h] \<and>
         recognizeStream (ws_on_close_old s) = None \<and>
         destroyed (streams (ws_on_close_old s) ! h) \<and>
         step WsClose s = ws_on_close (s\<lparr>ws_open := False\<rparr>) \<and>
         ((\<forall>ev \<in> set evs. \<not> is_audio_message ev) \<longrightarrow>
            upstream_calls (run evs (step WsClose s)) = upstream_calls s @ [End h] \<and>
            recognizeStream (run evs (step WsClose s)) = None)"
proof -
  have absent: "recognizeStream (step WsClose s) = None"
    by (simp add: step_def ws_on_close_def Let_def)
  have calls: "upstream_calls (step WsClose s) = upstream_calls s @ [End h]"
    using assms by (simp add: step_def ws_on_close_def stream_end_def Let_def)
  have "(\<forall>ev \<in> set evs. \<not> is_audio_message ev) \<longrightarrow>
            upstream_calls (run evs (step WsClose s)) = upstream_calls s @ [End h] \<and>
            recognizeStream (run evs (step WsClose s)) = None"
    using run_absent [OF absent, of evs] calls by simp
  moreover have "upstream_calls (ws_on_close s) = upstream_calls s @ [End h] \<and>
         recognizeStream (ws_on_close s) = None \<and>
         \<not> destroyed (streams (ws_on_close s) ! h)"
    using assms by (simp add: ws_on_close_def stream_end_def Let_def)
  moreover have "upstream_calls (ws_on_close_old s) = upstream_calls s @ [End h, Destroy h] \<and>
         recognizeStream (ws_on_close_old s) = None \<and>
         destroyed (streams (ws_on_close_old s) ! h)"
    using assms by (simp add: ws_on_close_old_def stream_end_def stream_destroy_def Let_def)
  moreover have "step WsClose s = ws_on_close (s\<lparr>ws_open := False\<rparr>)"
    by (simp add: step_def)
  ultimately show ?thesis by blast
qed

theorem disconnect_while_streaming_witness:
  "recognizeStream active_session = Some 0 \<and> 0 < length (streams active_session) \<and>
   \<not> destroyed (streams active_session ! 0) \<and> writable (streams active_session ! 0) \<and>
   \<not> is_audio_message TimerFires \<and>
   \<not> is_audio_message (StreamData \<lparr>results = None, speechEventType = None\<rparr>) \<and>
   \<not> is_audio_message (StreamError ''late'') \<and> \<not> is_audio_message StreamClose \<and>
   upstream_calls (ws_on_close active_session) = [End 0] \<and>
   upstream_calls (ws_on_close_old active_session) = [End 0, Destroy 0] \<and>
   upstream_calls (run [TimerFires, StreamData \<lparr>results = None, speechEventType = None\<rparr>,
                        StreamError ''late'', StreamClose] (step WsClose active_session)) = [End 0]"
proof -
  let ?evs = "[TimerFires, StreamData \<lparr>results = None, speechEventType = None\<rparr>,
               StreamError ''late'', StreamClose]"
  have held: "recognizeStream active_session = Some 0"
    and inside: "0 < length (streams active_session)"
    and live: "\<not> destroyed (streams active_session ! 0)"
    and ready: "writable (streams active_session ! 0)"
    and fresh: "upstream_calls active_session = []"
    by (simp_all add: active_session_def)
  have quiet: "\<forall>ev \<in> set ?evs. \<not> is_audio_message ev"
    by (simp add: is_audio_message_def)
  from disconnect_while_streaming [OF held inside live ready, of ?evs] quiet
  show ?thesis
    by (simp add: active_session_def is_audio_message_def step_def handler_defs call_defs
        ws_on_close_old_def)
qed

text \<open>
  Claim C7 as stated fails for \<^verbatim>\<open>src/server.ts\<close>: on a disconnect while streaming the only
  call is the half-close, and the stream is left undestroyed.
\<close>

theorem disconnect_destroy_counterexample:
  "recognizeStream active_session = Some 0 \<and>
   \<not> destroyed (streams active_session ! 0) \<and> writable (streams active_session ! 0) \<and>
   upstream_calls (ws_on_close active_session) = [End 0] \<and>
   Destroy 0 \<notin> set (upstream_calls (ws_on_close active_session)) \<and>
   \<not> destroyed (streams (ws_on_close active_session) ! 0)"
  by (simp add: ws_on_close_def stream_end_def active_session_def)

text \<open>
  Claim C10. The empty frame passes the length check and converts to no samples. With a
  live, writable stream held it is written upstream as zero bytes; with no stream held it
  starts the upstream stream and sets the timer, and when the creation returns a stream the
  session holds it.
\<close>

theorem empty_frame_is_well_formed:
  "length ([] :: byte list) mod 4 = 0 \<and>
   float32_to_int16 (Float32Array []) = [] \<and> int16_bytes [] = [] \<and>
   (recognizeStream s1 = Some h \<and> \<not> destroyed (streams s1 ! h) \<and> writable (streams s1 ! h) \<longrightarrow>
      processAndSendAudio [] s1 = s1\<lparr>upstream_calls := upstream_calls s1 @ [Write h []]\<rparr> \<and>
      ws_on_message (BufferMsg []) r s1 = s1\<lparr>upstream_calls := upstream_calls s1 @ [Write h []]\<rparr>) \<and>
   (recognizeStream s2 = None \<longrightarrow>
      ws_on_message (BufferMsg []) r s2 = (startGoogleStream r s2)\<lparr>timers := timers s2 @ [[]]\<rparr> \<and>
      recognizeStream (ws_on_message (BufferMsg []) (Returns st) s2) = Some (length (streams s2)) \<and>
      streams (ws_on_message (BufferMsg []) (Returns st) s2) = streams s2 @ [st])"
proof -
  have conv: "float32_to_int16 (Float32Array []) = []" "int16_bytes [] = []"
    by (simp_all add: float32_to_int16_eq_map Float32Array_def int16_bytes_def)
  then show ?thesis
    by (cases r) (auto simp: processAndSendAudio_def ws_on_message_def stream_write_def
        startGoogleStream_def ws_send_def Let_def)
qed

theorem empty_frame_is_well_formed_witness:
  "recognizeStream active_session = Some 0 \<and> \<not> destroyed (streams active_session ! 0) \<and>
   writable (streams active_session ! 0) \<and> recognizeStream initial = None \<and>
   upstream_calls (ws_on_message (BufferMsg []) Throws active_session) = [Write 0 []] \<and>
   recognizeStream (ws_on_message (BufferMsg []) (Returns \<lparr>destroyed = False, writable = True\<rparr>)
                      initial) = Some 0"
  using empty_frame_is_well_formed [of active_session 0 Throws initial
      "\<lparr>destroyed = False, writable = True\<rparr>"]
  by (simp add: active_session_def initial_def)

text \<open>
  Claim C8, on the code. The claim is what the branch for commands of the callback is
  written to do, and the code does not do it, since a text frame is handed to the callback
  as a \<^verbatim>\<open>Buffer\<close> and is taken for audio. On a fresh connection the stop command, 27 bytes,
  starts the upstream stream and sets the timer of a first audio chunk; when the creation
  throws, the client is sent an error. With a live, writable stream held, the 16 bytes of
  an unknown command are converted as four samples and written upstream.
\<close>

theorem stop_command_taken_as_audio:
  "ws_emit_message (TextFrame stop_text) = BufferMsg (map of_char stop_text) \<and>
   length (map of_char stop_text :: byte list) = 27 \<and>
   recognizeStream initial = None \<and>
   step (WsMessage (ws_emit_message (TextFrame stop_text))
           (Returns \<lparr>destroyed = False, writable = True\<rparr>)) initial =
     initial\<lparr>recognizeStream := Some 0,
             streams := [\<lparr>destroyed = False, writable = True\<rparr>],
             timers := [map of_char stop_text]\<rparr> \<and>
   step (WsMessage (ws_emit_message (TextFrame stop_text))
           (Returns \<lparr>destroyed = False, writable = True\<rparr>)) initial \<noteq> initial \<and>
   client_sent (step (WsMessage (ws_emit_message (TextFrame stop_text)) Throws) initial) =
     [ErrorMsg ''Internal failure starting transcription service.''] \<and>
   ws_emit_message (TextFrame other_text) = BufferMsg (map of_char other_text) \<and>
   float32_to_int16 (Float32Array (map of_char other_text)) = [32767, 32767, 0, 32767] \<and>
   step (WsMessage (ws_emit_message (TextFrame other_text)) Throws) active_session =
     active_session\<lparr>upstream_calls := [Write 0 [0xFF, 0x7F, 0xFF, 0x7F, 0, 0, 0xFF, 0x7F]]\<rparr>"
proof -
  have conv: "float32_to_int16 (Float32Array (map of_char other_text)) = [32767, 32767, 0, 32767]"
    by (simp add: other_text_def float32_to_int16_eq_map Float32Array_def float32_bits_def
        convert_sample_def f32_value_def f32_exponent_def f32_fraction_def f32_sign_def
        f32_magnitude_def times_32767_def Math_min_def Math_max_def ToInt16_def js_trunc_def
        upt_rec)
  have len: "length (map of_char other_text :: byte list) = 16"
    "length (map of_char stop_text :: byte list) = 27"
    by (simp_all add: other_text_def stop_text_def)
  have other: "step (WsMessage (ws_emit_message (TextFrame other_text)) Throws) active_session =
     active_session\<lparr>upstream_calls := [Write 0 [0xFF, 0x7F, 0xFF, 0x7F, 0, 0, 0xFF, 0x7F]]\<rparr>"
    using len(1)
    by (simp add: step_def ws_emit_message_def ws_on_message_def processAndSendAudio_def
        stream_write_def active_session_def conv int16_bytes_def)
  have start: "step (WsMessage (ws_emit_message (TextFrame stop_text))
           (Returns \<lparr>destroyed = False, writable = True\<rparr>)) initial =
     initial\<lparr>recognizeStream := Some 0,
             streams := [\<lparr>destroyed = False, writable = True\<rparr>],
             timers := [map of_char stop_text]\<rparr>"
    by (simp add: step_def ws_emit_message_def ws_on_message_def startGoogleStream_def initial_def)
  have changed: "initial\<lparr>recognizeStream := Some 0,
             streams := [\<lparr>destroyed = False, writable = True\<rparr>],
             timers := [map of_char stop_text]\<rparr> \<noteq> initial"
    by (simp add: initial_def)
  have throws: "client_sent (step (WsMessage (ws_emit_message (TextFrame stop_text)) Throws) initial) =
     [ErrorMsg ''Internal failure starting transcription service.'']"
    by (simp add: step_def ws_emit_message_def ws_on_message_def startGoogleStream_def
        ws_send_def initial_def)
  show ?thesis
    using conv len other start changed throws
    by (simp add: ws_emit_message_def initial_def)
qed

text \<open>
  Claim C9. A \<^verbatim>\<open>data\<close> event of the upstream stream changes the session by at most one
  message appended to what the client was sent. When the event carries results and the
  first result carries alternatives, the outcome is determined by the transcript of the
  first alternative, the finality flag of the first result and the state of the
  connection: it is the same as for the event cut down to that one result with that one
  alternative. When the first result carries no alternative, or the event carries no
  result, nothing is sent and the session is unchanged, whatever the further results
  carry.
\<close>

theorem data_event_forwards_first_alternative:
  "(\<exists>msgs. length msgs \<le> 1 \<and> stream_on_data d s = s\<lparr>client_sent := client_sent s @ msgs\<rparr>) \<and>
   (results d = Some (result # more_results) \<and>
    alternatives result = Some (first # more_alternatives) \<longrightarrow>
      stream_on_data d s =
        (case transcript first of
           Some t \<Rightarrow>
             (if t \<noteq> [] \<and> ws_open s
              then ws_send (TranscriptMsg t (is_final result = Some True)) s
              else s)
         | None \<Rightarrow> s) \<and>
      stream_on_data d s =
        stream_on_data
          (d\<lparr>results := Some [result\<lparr>alternatives := Some [first]\<rparr>]\<rparr>) s) \<and>
   (results d1 = Some (result1 # more_results1) \<and>
    (alternatives result1 = None \<or> alternatives result1 = Some []) \<longrightarrow>
      stream_on_data d1 s = s) \<and>
   (results d2 = None \<or> results d2 = Some [] \<longrightarrow> stream_on_data d2 s = s)"
proof -
  have one: "\<exists>msgs. length msgs \<le> 1 \<and> stream_on_data d s = s\<lparr>client_sent := client_sent s @ msgs\<rparr>"
  proof (cases "stream_on_data d s = s")
    case True
    then have "length ([] :: client_msg list) \<le> 1 \<and>
        stream_on_data d s = s\<lparr>client_sent := client_sent s @ []\<rparr>" by simp
    then show ?thesis by blast
  next
    case False
    then obtain t f where "stream_on_data d s = ws_send (TranscriptMsg t f) s"
      by (auto simp: stream_on_data_def Let_def split: option.splits list.splits if_splits)
    then have "length [TranscriptMsg t f] \<le> 1 \<and>
        stream_on_data d s = s\<lparr>client_sent := client_sent s @ [TranscriptMsg t f]\<rparr>"
      by (simp add: ws_send_def)
    then show ?thesis by blast
  qed
  have first: "results d = Some (result # more_results) \<and>
    alternatives result = Some (first # more_alternatives) \<longrightarrow>
      stream_on_data d s =
        (case transcript first of
           Some t \<Rightarrow>
             (if t \<noteq> [] \<and> ws_open s
              then ws_send (TranscriptMsg t (is_final result = Some True)) s
              else s)
         | None \<Rightarrow> s) \<and>
      stream_on_data d s =
        stream_on_data
          (d\<lparr>results := Some [result\<lparr>alternatives := Some [first]\<rparr>]\<rparr>) s"
    by (cases "is_final result")
       (auto simp: stream_on_data_def Let_def split: option.splits)
  have no_alternative: "results d1 = Some (result1 # more_results1) \<and>
    (alternatives result1 = None \<or> alternatives result1 = Some []) \<longrightarrow>
      stream_on_data d1 s = s"
    by (auto simp: stream_on_data_def)
  have no_result: "results d2 = None \<or> results d2 = Some [] \<longrightarrow> stream_on_data d2 s = s"
    by (auto simp: stream_on_data_def)
  from one first no_alternative no_result show ?thesis by blast
qed

theorem data_event_forwards_first_alternative_witness:
  "results \<lparr>results = Some [\<lparr>alternatives = Some [\<lparr>transcript = Some ''ola''\<rparr>,
                                                  \<lparr>transcript = Some ''hola''\<rparr>],
                              is_final = Some True\<rparr>,
                             \<lparr>alternatives = Some [\<lparr>transcript = Some ''mundo''\<rparr>],
                              is_final = None\<rparr>],
            speechEventType = None\<rparr>
     = Some (\<lparr>alternatives = Some [\<lparr>transcript = Some ''ola''\<rparr>, \<lparr>transcript = Some ''hola''\<rparr>],
              is_final = Some True\<rparr> #
             [\<lparr>alternatives = Some [\<lparr>transcript = Some ''mundo''\<rparr>], is_final = None\<rparr>]) \<and>
   client_sent (stream_on_data
      \<lparr>results = Some [\<lparr>alternatives = Some [\<lparr>transcript = Some ''ola''\<rparr>,
                                              \<lparr>transcript = Some ''hola''\<rparr>],
                          is_final = Some True\<rparr>,
                         \<lparr>alternatives = Some [\<lparr>transcript = Some ''mundo''\<rparr>],
                          is_final = None\<rparr>],
        speechEventType = None\<rparr> active_session)
     = [TranscriptMsg ''ola'' True] \<and>
   results \<lparr>results = Some [\<lparr>alternatives = Some [], is_final = Some True\<rparr>,
                             \<lparr>alternatives = Some [\<lparr>transcript = Some ''mundo''\<rparr>],
                              is_final = Some True\<rparr>],
            speechEventType = None\<rparr>
     = Some (\<lparr>alternatives = Some [], is_final = Some True\<rparr> #
             [\<lparr>alternatives = Some [\<lparr>transcript = Some ''mundo''\<rparr>], is_final = Some True\<rparr>]) \<and>
   stream_on_data
      \<lparr>results = Some [\<lparr>alternatives = Some [], is_final = Some True\<rparr>,
                         \<lparr>alternatives = Some [\<lparr>transcript = Some ''mundo''\<rparr>],
                          is_final = Some True\<rparr>],
        speechEventType = None\<rparr> active_session = active_session \<and>
   results \<lparr>results = None, speechEventType = Some ''END_OF_SINGLE_UTTERANCE''\<rparr> = None \<and>
   stream_on_data \<lparr>results = None, speechEventType = Some ''END_OF_SINGLE_UTTERANCE''\<rparr>
     active_session = active_session"
  using data_event_forwards_first_alternative
    [where d = "\<lparr>results = Some [\<lparr>alternatives = Some [\<lparr>transcript = Some ''ola''\<rparr>,
                                                      \<lparr>transcript = Some ''hola''\<rparr>],
                                  is_final = Some True\<rparr>,
                                 \<lparr>alternatives = Some [\<lparr>transcript = Some ''mundo''\<rparr>],
                                  is_final = None\<rparr>],
                speechEventType = None\<rparr>"
       and s = active_session
       and result = "\<lparr>alternatives = Some [\<lparr>transcript = Some ''ola''\<rparr>,
                                         \<lparr>transcript = Some ''hola''\<rparr>],
                     is_final = Some True\<rparr>"
       and more_results = "[\<lparr>alternatives = Some [\<lparr>transcript = Some ''mundo''\<rparr>],
                            is_final = None\<rparr>]"
       and first = "\<lparr>transcript = Some ''ola''\<rparr>"
       and more_alternatives = "[\<lparr>transcript = Some ''hola''\<rparr>]"
       and ?d1.0 = "\<lparr>results = Some [\<lparr>alternatives = Some [], is_final = Some True\<rparr>,
                                   \<lparr>alternatives = Some [\<lparr>transcript = Some ''mundo''\<rparr>],
                                    is_final = Some True\<rparr>],
                  speechEventType = None\<rparr>"
       and ?result1.0 = "\<lparr>alternatives = Some [], is_final = Some True\<rparr>"
       and ?more_results1.0 = "[\<lparr>alternatives = Some [\<lparr>transcript = Some ''mundo''\<rparr>],
                               is_final = Some True\<rparr>]"
       and ?d2.0 = "\<lparr>results = None, speechEventType = Some ''END_OF_SINGLE_UTTERANCE''\<rparr>"]
  by (simp add: active_session_def ws_send_def stream_on_data_def)




end
